theory Spec2Isabelle
  imports Complex_Main "HOL-Library.AList" "HOL-Library.Multiset"
begin

section \<open>The expense ledger of \<^verbatim>\<open>src/app.py\<close> (class \<^verbatim>\<open>ExpenseSplitter\<close>)\<close>

text \<open>
  Conventions of the embedding.
  \<^item> Money is a Python \<^verbatim>\<open>float\<close> in the source. It is modelled by the exact rationals
    \<^typ>\<open>rat\<close>: every comparison with the tolerance \<^verbatim>\<open>0.01\<close> is kept as written, but the
    rounding of IEEE arithmetic is not part of the model.
  \<^item> A Python \<^verbatim>\<open>dict\<close> is an association list in insertion order. \<^verbatim>\<open>d[k] = v\<close> is
    \<^const>\<open>AList.update\<close> (an existing key keeps its place, a new key goes to the end),
    and \<^verbatim>\<open>if k in d: d[k] = f(d[k])\<close> is \<^const>\<open>AList.map_entry\<close>.
  \<^item> The member registry is a Python \<^verbatim>\<open>set\<close>; it is modelled by the list of its elements
    in the order in which the set is iterated.
  \<^item> \<^verbatim>\<open>uuid.uuid4()\<close> and \<^verbatim>\<open>datetime.now()\<close> are inputs of the operations that use them.
  \<^item> \<^verbatim>\<open>save_data\<close> writes a file and swallows every exception; it does not change the
    ledger and is left out.
\<close>

subsection \<open>Data model\<close>

type_synonym member = string

type_synonym 'v dict = "(string \<times> 'v) list"

record expense =
  expense_id :: string
  description :: string
  amount :: rat
  paid_by :: "member list"
  paid_amounts :: "rat dict"
  split_among :: "member list"
  splits :: "rat dict"
  date :: string
  group :: string

record ledger =
  expenses :: "expense list"
  groups :: "member list dict"
  members :: "member list"

datatype py_error = ZeroDivisionError

text \<open>Truth value of an optional dictionary argument: \<^verbatim>\<open>None\<close> and \<^verbatim>\<open>{}\<close> are false.\<close>

fun truthy :: "'v dict option \<Rightarrow> bool" where
  "truthy None = False"
| "truthy (Some d) = (d \<noteq> [])"

definition keys :: "'v dict \<Rightarrow> string list" where
  "keys d = map fst d"

definition dict_values :: "'v dict \<Rightarrow> 'v list" where
  "dict_values d = map snd d"

subsection \<open>\<^verbatim>\<open>add_expense\<close>\<close>

text \<open>\<^verbatim>\<open>{member: split_amount for member in split_among}\<close>\<close>

definition const_splits :: "rat \<Rightarrow> member list \<Rightarrow> rat dict" where
  "const_splits v ms = foldl (\<lambda>d m. AList.update m v d) [] ms"

text \<open>
  \<^verbatim>\<open>{member: (ratio_splits[member] / total_ratio) * amount
     for member in split_among if member in ratio_splits}\<close>, for a non-zero \<^verbatim>\<open>total_ratio\<close>.
\<close>

definition ratio_dict :: "rat dict \<Rightarrow> rat \<Rightarrow> rat \<Rightarrow> member list \<Rightarrow> rat dict" where
  "ratio_dict ratio_splits total_ratio amt ms =
     foldl (\<lambda>d m. case map_of ratio_splits m of
                      None \<Rightarrow> d
                    | Some w \<Rightarrow> AList.update m ((w / total_ratio) * amt) d) [] ms"

text \<open>
  The branch that computes \<^verbatim>\<open>splits\<close> (lines 66 to 78). Python raises
  \<^verbatim>\<open>ZeroDivisionError\<close> when a division by zero is evaluated: in the equal branch when
  \<^verbatim>\<open>split_among\<close> is empty, in the ratio branch when \<^verbatim>\<open>total_ratio\<close> is zero and the
  comprehension reaches a member that has a weight.
\<close>

definition calc_splits ::
  "rat \<Rightarrow> member list \<Rightarrow> string \<Rightarrow> rat dict option \<Rightarrow> rat dict option \<Rightarrow> py_error + rat dict" where
  "calc_splits amt split_among_arg split_type custom_splits ratio_splits =
     (if split_type = ''equal'' then
        (if length split_among_arg = 0 then Inl ZeroDivisionError
         else Inr (const_splits (amt / of_nat (length split_among_arg)) split_among_arg))
      else if split_type = ''custom'' \<and> truthy custom_splits then
        Inr (case custom_splits of Some cs \<Rightarrow> cs | None \<Rightarrow> [])
      else if split_type = ''ratio'' \<and> truthy ratio_splits then
        (let rs = (case ratio_splits of Some r \<Rightarrow> r | None \<Rightarrow> []);
             total_ratio = sum_list (dict_values rs)
         in if total_ratio = 0 \<and> (\<exists>m \<in> set split_among_arg. m \<in> set (keys rs))
            then Inl ZeroDivisionError
            else Inr (ratio_dict rs total_ratio amt split_among_arg))
      else Inr (const_splits 0 split_among_arg))"

text \<open>
  \<^verbatim>\<open>add_expense\<close>: the new expense is appended to the store and its id is returned.
  The first two arguments are the values of \<^verbatim>\<open>uuid.uuid4()\<close> and \<^verbatim>\<open>datetime.now()\<close>.
\<close>

definition add_expense ::
  "string \<Rightarrow> string \<Rightarrow> string \<Rightarrow> rat \<Rightarrow> member list \<Rightarrow> rat dict \<Rightarrow> member list \<Rightarrow> string \<Rightarrow>
   rat dict option \<Rightarrow> rat dict option \<Rightarrow> string \<Rightarrow> ledger \<Rightarrow> py_error + (ledger \<times> string)" where
  "add_expense new_id now descr amt payers paid split_among_arg split_type custom_splits ratio_splits grp s =
     (case calc_splits amt split_among_arg split_type custom_splits ratio_splits of
        Inl err \<Rightarrow> Inl err
      | Inr sp \<Rightarrow>
          Inr (s\<lparr>expenses := expenses s @
                 [\<lparr>expense_id = new_id, description = descr, amount = amt, paid_by = payers,
                   paid_amounts = paid, split_among = split_among_arg, splits = sp,
                   date = now, group = grp\<rparr>]\<rparr>,
               new_id))"

text \<open>
  The older copy \<^verbatim>\<open>src/Splitwise clone/splitwise clone.py\<close> has no ratio branch and no
  \<^verbatim>\<open>ratio_splits\<close> parameter; the rest of its \<^verbatim>\<open>add_expense\<close> is the same.
\<close>

definition calc_splits_clone ::
  "rat \<Rightarrow> member list \<Rightarrow> string \<Rightarrow> rat dict option \<Rightarrow> py_error + rat dict" where
  "calc_splits_clone amt split_among_arg split_type custom_splits =
     (if split_type = ''equal'' then
        (if length split_among_arg = 0 then Inl ZeroDivisionError
         else Inr (const_splits (amt / of_nat (length split_among_arg)) split_among_arg))
      else if split_type = ''custom'' \<and> truthy custom_splits then
        Inr (case custom_splits of Some cs \<Rightarrow> cs | None \<Rightarrow> [])
      else Inr (const_splits 0 split_among_arg))"

definition add_expense_clone ::
  "string \<Rightarrow> string \<Rightarrow> string \<Rightarrow> rat \<Rightarrow> member list \<Rightarrow> rat dict \<Rightarrow> member list \<Rightarrow> string \<Rightarrow>
   rat dict option \<Rightarrow> string \<Rightarrow> ledger \<Rightarrow> py_error + (ledger \<times> string)" where
  "add_expense_clone new_id now descr amt payers paid split_among_arg split_type custom_splits grp s =
     (case calc_splits_clone amt split_among_arg split_type custom_splits of
        Inl err \<Rightarrow> Inl err
      | Inr sp \<Rightarrow>
          Inr (s\<lparr>expenses := expenses s @
                 [\<lparr>expense_id = new_id, description = descr, amount = amt, paid_by = payers,
                   paid_amounts = paid, split_among = split_among_arg, splits = sp,
                   date = now, group = grp\<rparr>]\<rparr>,
               new_id))"

subsection \<open>\<^verbatim>\<open>calculate_balances\<close>\<close>









subsection \<open>\<^verbatim>\<open>get_settlements\<close>\<close>













subsection \<open>Sequences of \<^verbatim>\<open>add_expense\<close> calls\<close>






text \<open>
  The condition under which the form enables its "Add Expense" button (lines 401 to 410 of
  \<^verbatim>\<open>main\<close>); the form passes the lower-cased \<^verbatim>\<open>split_type\<close> to \<^verbatim>\<open>add_expense\<close>.
\<close>

definition can_add_expense ::
  "string \<Rightarrow> rat \<Rightarrow> member list \<Rightarrow> member list \<Rightarrow> string \<Rightarrow> rat dict \<Rightarrow> rat dict \<Rightarrow> rat dict \<Rightarrow> bool" where
  "can_add_expense descr amt payers among split_type custom_splits ratio_splits paid =
     (descr \<noteq> [] \<and> amt > 0 \<and> payers \<noteq> [] \<and> among \<noteq> [] \<and>
      (split_type = ''Equal'' \<or>
       (split_type = ''Custom'' \<and> \<bar>sum_list (dict_values custom_splits) - amt\<bar> < 1/100) \<or>
       (split_type = ''Ratio'' \<and> ratio_splits \<noteq> [])) \<and>
      (length payers = 1 \<or> \<bar>sum_list (dict_values paid) - amt\<bar> < 1/100))"

subsection \<open>\<^verbatim>\<open>export_data\<close> and \<^verbatim>\<open>import_data\<close>\<close>

text \<open>
  The values that \<^verbatim>\<open>json.dumps\<close> writes and \<^verbatim>\<open>json.loads\<close> returns. The two functions
  belong to Python's standard library; they are parameters \<open>dumps\<close> and \<open>loads\<close> of the
  operations below, \<open>loads\<close> returning \<open>None\<close> for \<^verbatim>\<open>JSONDecodeError\<close>.
\<close>

datatype json =
  JNull | JBool bool | JNum rat | JStr string | JList "json list" | JDict "(string \<times> json) list"

definition str_list_json :: "string list \<Rightarrow> json" where
  "str_list_json xs = JList (map JStr xs)"

definition num_dict_json :: "rat dict \<Rightarrow> json" where
  "num_dict_json d = JDict (map (\<lambda>(k, v). (k, JNum v)) d)"

definition expense_json :: "expense \<Rightarrow> json" where
  "expense_json ex =
     JDict [(''id'', JStr (expense_id ex)),
            (''description'', JStr (description ex)),
            (''amount'', JNum (amount ex)),
            (''paid_by'', str_list_json (paid_by ex)),
            (''paid_amounts'', num_dict_json (paid_amounts ex)),
            (''split_among'', str_list_json (split_among ex)),
            (''splits'', num_dict_json (splits ex)),
            (''date'', JStr (date ex)),
            (''group'', JStr (group ex))]"

definition groups_json :: "member list dict \<Rightarrow> json" where
  "groups_json g = JDict (map (\<lambda>(k, ms). (k, str_list_json ms)) g)"

definition export_data :: "(json \<Rightarrow> 'txt) \<Rightarrow> string \<Rightarrow> ledger \<Rightarrow> 'txt" where
  "export_data dumps now s =
     dumps (JDict [(''expenses'', JList (map expense_json (expenses s))),
                   (''groups'', groups_json (groups s)),
                   (''members'', str_list_json (members s)),
                   (''export_date'', JStr now)])"

text \<open>
  \<^verbatim>\<open>import_data\<close> stores the parsed values as they are. The ledger of this model is typed, so
  the parsed values are read back into the types of the data model; a snapshot that has both
  required keys but whose values do not have the shape of a ledger is outside the model
  (\<open>None\<close>).
\<close>

fun those :: "'a option list \<Rightarrow> 'a list option" where
  "those [] = Some []"
| "those (None # xs) = None"
| "those (Some x # xs) = (case those xs of None \<Rightarrow> None | Some ys \<Rightarrow> Some (x # ys))"

fun json_str :: "json \<Rightarrow> string option" where
  "json_str (JStr x) = Some x"
| "json_str _ = None"

fun json_num :: "json \<Rightarrow> rat option" where
  "json_num (JNum x) = Some x"
| "json_num _ = None"

fun json_str_list :: "json \<Rightarrow> string list option" where
  "json_str_list (JList xs) = those (map json_str xs)"
| "json_str_list _ = None"

fun json_dict :: "(json \<Rightarrow> 'v option) \<Rightarrow> json \<Rightarrow> 'v dict option" where
  "json_dict f (JDict kvs) =
     those (map (\<lambda>(k, v). case f v of None \<Rightarrow> None | Some x \<Rightarrow> Some (k, x)) kvs)"
| "json_dict f _ = None"

definition field :: "(json \<Rightarrow> 'v option) \<Rightarrow> (string \<times> json) list \<Rightarrow> string \<Rightarrow> 'v option" where
  "field f kvs k = (case map_of kvs k of None \<Rightarrow> None | Some v \<Rightarrow> f v)"

fun json_expense :: "json \<Rightarrow> expense option" where
  "json_expense (JDict kvs) =
     Option.bind (field json_str kvs ''id'') (\<lambda>i.
     Option.bind (field json_str kvs ''description'') (\<lambda>de.
     Option.bind (field json_num kvs ''amount'') (\<lambda>am.
     Option.bind (field json_str_list kvs ''paid_by'') (\<lambda>pb.
     Option.bind (field (json_dict json_num) kvs ''paid_amounts'') (\<lambda>pa.
     Option.bind (field json_str_list kvs ''split_among'') (\<lambda>sa.
     Option.bind (field (json_dict json_num) kvs ''splits'') (\<lambda>sp.
     Option.bind (field json_str kvs ''date'') (\<lambda>da.
     Option.bind (field json_str kvs ''group'') (\<lambda>gr.
       Some \<lparr>expense_id = i, description = de, amount = am, paid_by = pb,
             paid_amounts = pa, split_among = sa, splits = sp, date = da,
             group = gr\<rparr>)))))))))"
| "json_expense _ = None"

fun json_expenses :: "json \<Rightarrow> expense list option" where
  "json_expenses (JList xs) = those (map json_expense xs)"
| "json_expenses _ = None"

text \<open>
  \<^verbatim>\<open>import_data\<close> (lines 203 to 230). A text that does not parse, a parsed value that is not
  an object, and an object without \<^verbatim>\<open>'expenses'\<close> or \<^verbatim>\<open>'members'\<close> give \<^verbatim>\<open>False\<close> and leave
  the ledger as it was. \<^verbatim>\<open>data.get('groups', {})\<close> defaults to the empty dictionary, and
  \<^verbatim>\<open>set(...)\<close> keeps one copy of each name.
\<close>

definition import_data ::
  "('txt \<Rightarrow> json option) \<Rightarrow> 'txt \<Rightarrow> ledger \<Rightarrow> (bool \<times> ledger) option" where
  "import_data loads json_data s =
     (case loads json_data of
        None \<Rightarrow> Some (False, s)
      | Some (JDict data) \<Rightarrow>
          if ''expenses'' \<in> set (keys data) \<and> ''members'' \<in> set (keys data) then
            (case (field json_expenses data ''expenses'',
                   (case map_of data ''groups'' of
                      None \<Rightarrow> Some []
                    | Some g \<Rightarrow> json_dict json_str_list g),
                   field json_str_list data ''members'') of
               (Some es, Some gs, Some ms) \<Rightarrow>
                 Some (True, \<lparr>expenses = es, groups = gs, members = remdups ms\<rparr>)
             | _ \<Rightarrow> None)
          else Some (False, s)
      | Some _ \<Rightarrow> Some (False, s))"



subsection \<open>The invariant of the settlement loops\<close>


subsection \<open>Example ledgers\<close>

definition empty_ledger :: ledger where
  "empty_ledger = \<lparr>expenses = [], groups = [], members = [''A'', ''B'', ''C'']\<rparr>"









section \<open>Facts about dictionaries\<close>


lemma snd_set_update: "snd ` set (AList.update k v d) \<subseteq> insert v (snd ` set d)"
  by (induction d) auto

lemma const_fold_map_of:
  "map_of (foldl (\<lambda>d m. AList.update m v d) d0 ms) k =
     (if k \<in> set ms then Some v else map_of d0 k)"
  by (induction ms arbitrary: d0) (auto simp: update_conv')

lemma const_fold_values:
  "snd ` set (foldl (\<lambda>d m. AList.update m v d) d0 ms) \<subseteq> insert v (snd ` set d0)"
proof (induction ms arbitrary: d0)
  case Nil
  then show ?case by auto
next
  case (Cons m ms)
  have "snd ` set (foldl (\<lambda>d m. AList.update m v d) (AList.update m v d0) ms)
          \<subseteq> insert v (snd ` set (AList.update m v d0))"
    by (rule Cons.IH)
  also have "\<dots> \<subseteq> insert v (snd ` set d0)"
    using snd_set_update [of m v d0] by auto
  finally show ?case by simp
qed



lemma sum_list_all_zero: "(\<And>x. x \<in> set xs \<Longrightarrow> x = (0::rat)) \<Longrightarrow> sum_list xs = 0"
  by (induction xs) auto








section \<open>The shares computed by add_expense\<close>

lemma map_of_const_splits:
  "map_of (const_splits v ms) k = (if k \<in> set ms then Some v else None)"
  by (simp add: const_splits_def const_fold_map_of)

lemma const_splits_values: "x \<in> set (dict_values (const_splits v ms)) \<Longrightarrow> x = v"
  using const_fold_values [of v "[]" ms] by (auto simp: const_splits_def dict_values_def)

lemma sum_const_splits_zero: "sum_list (dict_values (const_splits 0 ms)) = 0"
  by (rule sum_list_all_zero) (rule const_splits_values)



lemma keys_const_splits: "set (keys (const_splits v ms)) = set ms"
proof -
  have "set (keys (const_splits v ms)) = dom (map_of (const_splits v ms))"
    by (simp add: keys_def dom_map_of_conv_image_fst)
  also have "\<dots> = set ms"
    by (auto simp: dom_def map_of_const_splits)
  finally show ?thesis .
qed










text \<open>
  Claim C9. A call whose \<^verbatim>\<open>split_type\<close> is not \<^verbatim>\<open>"equal"\<close>, not \<^verbatim>\<open>"custom"\<close> with a non-empty
  \<^verbatim>\<open>custom_splits\<close> and not \<^verbatim>\<open>"ratio"\<close> with a non-empty \<^verbatim>\<open>ratio_splits\<close> does not fail: it
  appends an expense whose shares map every member of \<^verbatim>\<open>split_among\<close> to 0, so the shares
  add up to 0. The older copy of the function, which has no ratio branch, does the same.
\<close>

theorem fallback_branch_zero_splits:
  assumes "split_type \<noteq> ''equal''"
    and "\<not> (split_type = ''custom'' \<and> truthy custom_splits)"
    and "\<not> (split_type = ''ratio'' \<and> truthy ratio_splits)"
  shows "add_expense new_id now descr amt payers paid among split_type custom_splits ratio_splits grp s =
           Inr (s\<lparr>expenses := expenses s @
                  [\<lparr>expense_id = new_id, description = descr, amount = amt, paid_by = payers,
                    paid_amounts = paid, split_among = among, splits = const_splits 0 among,
                    date = now, group = grp\<rparr>]\<rparr>, new_id)
         \<and> add_expense_clone new_id now descr amt payers paid among split_type custom_splits grp s =
           Inr (s\<lparr>expenses := expenses s @
                  [\<lparr>expense_id = new_id, description = descr, amount = amt, paid_by = payers,
                    paid_amounts = paid, split_among = among, splits = const_splits 0 among,
                    date = now, group = grp\<rparr>]\<rparr>, new_id)
         \<and> (\<forall>m. map_of (const_splits 0 among) m = (if m \<in> set among then Some 0 else None))
         \<and> sum_list (dict_values (const_splits 0 among)) = 0"
  using assms
  by (auto simp add: add_expense_def calc_splits_def add_expense_clone_def calc_splits_clone_def
      map_of_const_splits sum_const_splits_zero)

theorem fallback_branch_zero_splits_witness:
  "add_expense ''e1'' ''t'' ''Taxi'' 50 [''A''] [(''A'', 50)] [''A'', ''B''] ''custom'' None None ''General'' empty_ledger =
     Inr (empty_ledger\<lparr>expenses :=
            [\<lparr>expense_id = ''e1'', description = ''Taxi'', amount = 50, paid_by = [''A''],
              paid_amounts = [(''A'', 50)], split_among = [''A'', ''B''],
              splits = [(''A'', 0), (''B'', 0)], date = ''t'', group = ''General''\<rparr>]\<rparr>, ''e1'')
   \<and> sum_list (dict_values [(''A'', 0::rat), (''B'', 0)]) = 0"
  using fallback_branch_zero_splits [of "''custom''" None None "''e1''" "''t''" "''Taxi''" 50 "[''A'']" "[(''A'', 50)]"
      "[''A'', ''B'']" "''General''" empty_ledger]
  by (simp add: const_splits_def empty_ledger_def dict_values_def)

text \<open>
  Claim C10. With \<^verbatim>\<open>split_type\<close> \<^verbatim>\<open>"equal"\<close>, a non-empty \<^verbatim>\<open>split_among\<close> makes the division
  defined and the call returns; an empty \<^verbatim>\<open>split_among\<close> makes the call raise
  \<^verbatim>\<open>ZeroDivisionError\<close>.
\<close>

theorem equal_split_division:
  assumes "split_type = ''equal''"
  shows "(among \<noteq> [] \<longrightarrow>
           add_expense new_id now descr amt payers paid among split_type custom_splits ratio_splits grp s =
             Inr (s\<lparr>expenses := expenses s @
                  [\<lparr>expense_id = new_id, description = descr, amount = amt, paid_by = payers,
                    paid_amounts = paid, split_among = among,
                    splits = const_splits (amt / of_nat (length among)) among,
                    date = now, group = grp\<rparr>]\<rparr>, new_id))
       \<and> (among = [] \<longrightarrow>
           add_expense new_id now descr amt payers paid among split_type custom_splits ratio_splits grp s =
             Inl ZeroDivisionError)"
  using assms by (simp add: add_expense_def calc_splits_def)

theorem equal_split_division_witness:
  "add_expense ''e1'' ''t'' ''Dinner'' 90 [''A''] [(''A'', 90)] [''A'', ''B'', ''C''] ''equal'' None None ''General'' empty_ledger =
     Inr (empty_ledger\<lparr>expenses :=
            [\<lparr>expense_id = ''e1'', description = ''Dinner'', amount = 90, paid_by = [''A''],
              paid_amounts = [(''A'', 90)], split_among = [''A'', ''B'', ''C''],
              splits = [(''A'', 30), (''B'', 30), (''C'', 30)], date = ''t'', group = ''General''\<rparr>]\<rparr>, ''e1'')
   \<and> add_expense ''e2'' ''t'' ''Dinner'' 90 [''A''] [(''A'', 90)] [] ''equal'' None None ''General'' empty_ledger =
     Inl ZeroDivisionError"
  using equal_split_division [of "''equal''" "[''A'', ''B'', ''C'']" "''e1''" "''t''" "''Dinner''" 90 "[''A'']"
      "[(''A'', 90)]" None None "''General''" empty_ledger]
    equal_split_division [of "''equal''" "[]" "''e2''" "''t''" "''Dinner''" 90 "[''A'']"
      "[(''A'', 90)]" None None "''General''" empty_ledger]
  by (simp add: const_splits_def empty_ledger_def)

text \<open>
  Claim C3, as amended. \<^verbatim>\<open>add_expense\<close> does not validate a custom split: with
  \<^verbatim>\<open>split_type\<close> \<^verbatim>\<open>"custom"\<close> and a non-empty \<^verbatim>\<open>custom_splits\<close> it appends the expense with
  exactly the caller's shares, whatever they add up to. The comparison of the shares with
  the amount is made by the form, which enables its button for a custom split only when the
  two differ by less than 0.01.
\<close>

theorem custom_split_accepted_unchecked:
  assumes "custom_splits \<noteq> []"
  shows "add_expense new_id now descr amt payers paid among ''custom'' (Some custom_splits) ratio_splits grp s =
             Inr (s\<lparr>expenses := expenses s @
                  [\<lparr>expense_id = new_id, description = descr, amount = amt, paid_by = payers,
                    paid_amounts = paid, split_among = among, splits = custom_splits,
                    date = now, group = grp\<rparr>]\<rparr>, new_id)
       \<and> (can_add_expense descr amt payers among ''Custom'' custom_splits ui_ratio_splits paid \<longrightarrow>
            \<bar>sum_list (dict_values custom_splits) - amt\<bar> < 1/100)"
  using assms by (simp add: add_expense_def calc_splits_def can_add_expense_def)

theorem custom_split_accepted_unchecked_witness:
  "add_expense ''e1'' ''t'' ''Dinner'' 30 [''A''] [(''A'', 30)] [''A'', ''B''] ''custom''
       (Some [(''A'', 10), (''B'', 20)]) None ''General'' empty_ledger =
     Inr (empty_ledger\<lparr>expenses :=
            [\<lparr>expense_id = ''e1'', description = ''Dinner'', amount = 30, paid_by = [''A''],
              paid_amounts = [(''A'', 30)], split_among = [''A'', ''B''],
              splits = [(''A'', 10), (''B'', 20)], date = ''t'', group = ''General''\<rparr>]\<rparr>, ''e1'')
   \<and> can_add_expense ''Dinner'' 30 [''A''] [''A'', ''B''] ''Custom'' [(''A'', 10), (''B'', 20)] [] [(''A'', 30)]
   \<and> \<bar>sum_list (dict_values [(''A'', 10::rat), (''B'', 20)]) - 30\<bar> < 1/100"
  using custom_split_accepted_unchecked [of "[(''A'', 10), (''B'', 20)]" "''e1''" "''t''" "''Dinner''" 30 "[''A'']"
      "[(''A'', 30)]" "[''A'', ''B'']" None "''General''" empty_ledger "[]"]
  by (simp add: empty_ledger_def can_add_expense_def dict_values_def)

text \<open>
  Claim C3 as stated fails: custom shares of 10 and 20 for an amount of 100 are accepted,
  no error is returned and the store grows by the inconsistent expense.
\<close>

theorem custom_split_mismatch_not_rejected:
  "add_expense ''e1'' ''t'' ''Dinner'' 100 [''A''] [(''A'', 100)] [''A'', ''B''] ''custom''
       (Some [(''A'', 10), (''B'', 20)]) None ''General'' empty_ledger =
     Inr (empty_ledger\<lparr>expenses :=
            [\<lparr>expense_id = ''e1'', description = ''Dinner'', amount = 100, paid_by = [''A''],
              paid_amounts = [(''A'', 100)], split_among = [''A'', ''B''],
              splits = [(''A'', 10), (''B'', 20)], date = ''t'', group = ''General''\<rparr>]\<rparr>, ''e1'')
   \<and> \<bar>sum_list (dict_values [(''A'', 10::rat), (''B'', 20)]) - 100\<bar> > 1/100"
  by (simp add: add_expense_def calc_splits_def empty_ledger_def dict_values_def)




section \<open>Balances\<close>

































section \<open>Settlements\<close>


























section \<open>Export and import\<close>

lemma those_map_Some: "those (map Some xs) = Some xs"
  by (induction xs) simp_all

lemma json_str_list_roundtrip: "json_str_list (str_list_json xs) = Some xs"
  by (simp add: str_list_json_def comp_def those_map_Some)

lemma json_num_dict_roundtrip: "json_dict json_num (num_dict_json d) = Some d"
  by (induction d) (auto simp: num_dict_json_def)

lemma json_groups_roundtrip: "json_dict json_str_list (groups_json g) = Some g"
  by (induction g) (auto simp: groups_json_def json_str_list_roundtrip)

lemma json_expense_roundtrip: "json_expense (expense_json ex) = Some ex"
  by (cases ex)
    (simp add: expense_json_def field_def json_str_list_roundtrip json_num_dict_roundtrip)

lemma json_expenses_roundtrip: "json_expenses (JList (map expense_json es)) = Some es"
  by (simp add: comp_def json_expense_roundtrip those_map_Some)

text \<open>
  Claim C8. With a parser that reads back what the printer writes, \<^verbatim>\<open>import_data\<close> applied to
  the text of \<^verbatim>\<open>export_data\<close> returns \<^verbatim>\<open>True\<close> and a ledger with the same expense list, the
  same groups and the same set of member names, whatever the ledger was before the import.
\<close>

theorem import_export_roundtrip:
  assumes "\<forall>v. loads (dumps v) = Some v"
  shows "import_data loads (export_data dumps now s) s0 =
           Some (True, \<lparr>expenses = expenses s, groups = groups s, members = remdups (members s)\<rparr>)
       \<and> set (remdups (members s)) = set (members s)"
  using assms
  by (simp add: import_data_def export_data_def keys_def field_def json_expense_roundtrip
      comp_def those_map_Some json_groups_roundtrip json_str_list_roundtrip)

theorem import_export_roundtrip_witness:
  "import_data Some (export_data id ''2024-01-01 10:00:00''
       \<lparr>expenses = [\<lparr>expense_id = ''e1'', description = ''Dinner'', amount = 90, paid_by = [''A''],
              paid_amounts = [(''A'', 90)], split_among = [''A'', ''B'', ''C''],
              splits = [(''A'', 30), (''B'', 30), (''C'', 30)], date = ''t'', group = ''Trip''\<rparr>],
        groups = [(''Trip'', [''A'', ''B''])], members = [''A'', ''B'', ''C'']\<rparr>) empty_ledger =
     Some (True,
       \<lparr>expenses = [\<lparr>expense_id = ''e1'', description = ''Dinner'', amount = 90, paid_by = [''A''],
              paid_amounts = [(''A'', 90)], split_among = [''A'', ''B'', ''C''],
              splits = [(''A'', 30), (''B'', 30), (''C'', 30)], date = ''t'', group = ''Trip''\<rparr>],
        groups = [(''Trip'', [''A'', ''B''])], members = [''A'', ''B'', ''C'']\<rparr>)"
proof -
  have codec: "\<forall>v::json. Some (id v) = Some v" by simp
  from import_export_roundtrip [of Some id "''2024-01-01 10:00:00''"
       "\<lparr>expenses = [\<lparr>expense_id = ''e1'', description = ''Dinner'', amount = 90, paid_by = [''A''],
              paid_amounts = [(''A'', 90)], split_among = [''A'', ''B'', ''C''],
              splits = [(''A'', 30), (''B'', 30), (''C'', 30)], date = ''t'', group = ''Trip''\<rparr>],
        groups = [(''Trip'', [''A'', ''B''])], members = [''A'', ''B'', ''C'']\<rparr>" empty_ledger, OF codec]
  show ?thesis by simp
qed

end
